theory Spec2Isabelle
  imports Complex_Main "HOL-Library.Char_ord" "HOL-Library.List_Lexorder"
begin

section \<open>The product store of dao.py\<close>

text \<open>
  dao.py is a data-access layer over one SQLite file. Every function opens a connection
  through the context manager \<open>get_connection\<close>, runs one statement and leaves the
  \<^verbatim>\<open>with\<close> block, which commits and closes. The embedding makes the file system,
  the connection objects and the exceptions explicit:
  \<^item> a database file holds its tables and the counter that \<^verbatim>\<open>AUTOINCREMENT\<close> keeps
    in \<^verbatim>\<open>sqlite_sequence\<close>;
  \<^item> a connection object has a path, a row factory and an open/closed flag; the objects
    that were ever created are kept in a list, and a handle is an index into it;
  \<^item> an exception is the left injection of a sum.
  Stored column values are modelled at the types the schema declares (text, text, real,
  integer), text as 8-bit character lists and a stored double as the real number it
  denotes. A number a caller supplies is a Python int, a float with a finite value, or the
  float NaN (the two infinite floats, which the engine stores as they are, are left out).
  An integer parameter outside the 64-bit range of an SQLite integer, a NaN for the
  \<^verbatim>\<open>NOT NULL\<close> cost and the end of the identifier range are error paths of the statements.
\<close>

subsection \<open>Data\<close>

datatype error =
    KeyError string
  | TypeError
  | OverflowError
  | IntegrityError string
  | OperationalError string

text \<open>One row of \<^verbatim>\<open>products(id, name, description, cost, qty)\<close>.\<close>

record product_row =
  row_id :: int
  name :: string
  description :: string
  cost :: real
  qty :: int

text \<open>A Python number: an int, a float by its finite value, or the float NaN.\<close>

datatype number = Py_int int | Py_float real | Py_nan

text \<open>
  The dictionary handed to \<open>add_product\<close> and \<open>update_product\<close>: each of the four keys
  is present with a value (\<open>Some\<close>) or absent (\<open>None\<close>).
\<close>

record product =
  name_key :: "string option"
  description_key :: "string option"
  cost_key :: "number option"
  qty_key :: "int option"

record database =
  tables :: "string \<rightharpoonup> product_row list"
  sqlite_sequence :: int

text \<open>\<^verbatim>\<open>conn.row_factory\<close>: the default (rows are plain tuples) or \<^verbatim>\<open>sqlite3.Row\<close>.\<close>

datatype factory = Tuple_rows | Row

record connection =
  database_path :: string
  row_factory :: factory
  is_open :: bool

text \<open>
  The world a call runs in: the files, the connection objects created so far, and whether
  the storage engine fails a commit (lock timeout, disk full).
\<close>

record world =
  files :: "string \<rightharpoonup> database"
  conns :: "connection list"
  commit_raises :: bool

definition empty_database :: database where
  "empty_database = \<lparr>tables = Map.empty, sqlite_sequence = 0\<rparr>"

definition no_such_table :: error where
  "no_such_table = OperationalError ''no such table: products''"

definition commit_failed :: error where
  "commit_failed = OperationalError ''commit failed''"

definition database_full :: error where
  "database_full = OperationalError ''database or disk is full''"

definition cost_is_null :: error where
  "cost_is_null = IntegrityError ''NOT NULL constraint failed: products.cost''"

subsection \<open>Binding Python values to a statement\<close>

text \<open>
  An SQLite integer has 64 bits: binding a Python int outside that range raises
  \<^verbatim>\<open>OverflowError\<close>, and no identifier lies outside it.
\<close>

definition sqlite_integer :: "int \<Rightarrow> bool" where
  "sqlite_integer i = (- (2 ^ 63) \<le> i \<and> i < 2 ^ 63)"

definition bindable :: "number \<Rightarrow> bool" where
  "bindable c = (case c of Py_int i \<Rightarrow> sqlite_integer i | Py_float x \<Rightarrow> True | Py_nan \<Rightarrow> True)"

text \<open>
  The conversion of a 64-bit integer to a double, which keeps 53 significant bits and
  rounds to the nearest double, to the even one at a tie: \<open>excess_bits a\<close> is the number
  of low bits that \<open>a\<close> has beyond 53.
\<close>

function excess_bits :: "int \<Rightarrow> nat" where
  "excess_bits a = (if a < 2 ^ 53 then 0 else Suc (excess_bits (a div 2)))"
  by pat_completeness auto
termination
  by (relation "measure nat") auto

declare excess_bits.simps [simp del]

definition round_half_even :: "int \<Rightarrow> nat \<Rightarrow> int" where
  "round_half_even a e =
     (let q = a div 2 ^ e; r = a mod 2 ^ e
      in if 2 ^ e < 2 * r \<or> (2 * r = 2 ^ e \<and> odd q) then (q + 1) * 2 ^ e else q * 2 ^ e)"

definition to_double :: "int \<Rightarrow> real" where
  "to_double i = real_of_int (sgn i * round_half_even \<bar>i\<bar> (excess_bits \<bar>i\<bar>))"

text \<open>
  What the column \<^verbatim>\<open>cost REAL\<close> holds for a bound number: an integer is converted to a
  double, a float is kept, and NaN becomes \<^verbatim>\<open>NULL\<close> (\<open>None\<close>).
\<close>

definition real_column :: "number \<Rightarrow> real option" where
  "real_column c =
     (case c of Py_int i \<Rightarrow> Some (to_double i) | Py_float x \<Rightarrow> Some x | Py_nan \<Rightarrow> None)"

subsection \<open>The SQL statements the module executes\<close>

text \<open>
  \<^verbatim>\<open>CREATE TABLE IF NOT EXISTS products (...)\<close>: a new empty table unless one exists.
\<close>

definition sql_create_table :: "database \<Rightarrow> database" where
  "sql_create_table db =
     (case tables db ''products'' of
        None \<Rightarrow> db\<lparr>tables := (tables db)(''products'' \<mapsto> [])\<rparr>
      | Some rows \<Rightarrow> db)"

text \<open>
  The identifier \<^verbatim>\<open>AUTOINCREMENT\<close> gives a new row: one more than the largest of the
  identifiers in the table and the counter, which remembers the largest identifier ever
  given.
\<close>

definition next_id :: "database \<Rightarrow> product_row list \<Rightarrow> int" where
  "next_id db rows = fold max (map row_id rows) (sqlite_sequence db) + 1"

text \<open>
  Each statement with parameters is \<^verbatim>\<open>execute(sql, params)\<close>: the statement is
  compiled (a missing table is found here), then the parameters are bound (an int outside
  the 64-bit range raises \<^verbatim>\<open>OverflowError\<close>), then the statement runs. A statement that
  raises changes nothing.
\<close>

text \<open>
  \<^verbatim>\<open>INSERT INTO products (name, description, cost, qty) VALUES (?, ?, ?, ?)\<close>: the
  insert fails when the identifiers are used up, and when the cost is \<^verbatim>\<open>NULL\<close>.
\<close>

definition sql_insert :: "string \<times> string \<times> number \<times> int \<Rightarrow> database \<Rightarrow> error + database" where
  "sql_insert params db =
     (case tables db ''products'' of
        None \<Rightarrow> Inl no_such_table
      | Some rows \<Rightarrow>
          (case params of (n, d, c, q) \<Rightarrow>
             if \<not> bindable c \<or> \<not> sqlite_integer q then Inl OverflowError
             else if \<not> sqlite_integer (next_id db rows) then Inl database_full
             else (case real_column c of
                     None \<Rightarrow> Inl cost_is_null
                   | Some x \<Rightarrow>
                       Inr (db\<lparr>tables := (tables db)(''products'' \<mapsto>
                                  rows @ [\<lparr>row_id = next_id db rows, name = n, description = d,
                                           cost = x, qty = q\<rparr>]),
                               sqlite_sequence := next_id db rows\<rparr>))))"

text \<open>\<^verbatim>\<open>executemany\<close> of the insert: one insert per parameter tuple, in order.\<close>

fun executemany :: "(string \<times> string \<times> number \<times> int) list \<Rightarrow> database \<Rightarrow> error + database" where
  "executemany [] db = Inr db"
| "executemany (p # ps) db =
     (case sql_insert p db of Inl e \<Rightarrow> Inl e | Inr db' \<Rightarrow> executemany ps db')"

text \<open>\<^verbatim>\<open>SELECT * FROM products\<close> followed by \<^verbatim>\<open>fetchall()\<close>\<close>

definition sql_select_all :: "database \<Rightarrow> error + product_row list" where
  "sql_select_all db =
     (case tables db ''products'' of None \<Rightarrow> Inl no_such_table | Some rows \<Rightarrow> Inr rows)"

text \<open>\<^verbatim>\<open>SELECT * FROM products WHERE id = ?\<close>\<close>

definition sql_select_where_id :: "int \<Rightarrow> database \<Rightarrow> error + product_row list" where
  "sql_select_where_id i db =
     (case tables db ''products'' of
        None \<Rightarrow> Inl no_such_table
      | Some rows \<Rightarrow>
          if \<not> sqlite_integer i then Inl OverflowError
          else Inr (filter (\<lambda>r. row_id r = i) rows))"

text \<open>\<^verbatim>\<open>fetchone()\<close>: the first row of the result, or \<^verbatim>\<open>None\<close>.\<close>

fun fetchone :: "product_row list \<Rightarrow> product_row option" where
  "fetchone [] = None"
| "fetchone (r # rs) = Some r"

text \<open>\<^verbatim>\<open>UPDATE products SET qty = ? WHERE id = ?\<close>\<close>

definition sql_update_qty :: "int \<Rightarrow> int \<Rightarrow> database \<Rightarrow> error + database" where
  "sql_update_qty q i db =
     (case tables db ''products'' of
        None \<Rightarrow> Inl no_such_table
      | Some rows \<Rightarrow>
          if \<not> sqlite_integer q \<or> \<not> sqlite_integer i then Inl OverflowError
          else Inr (db\<lparr>tables := (tables db)(''products'' \<mapsto>
                       map (\<lambda>r. if row_id r = i then r\<lparr>qty := q\<rparr> else r) rows)\<rparr>))"

text \<open>
  \<^verbatim>\<open>UPDATE products SET name = ?, description = ?, cost = ?, qty = ? WHERE id = ?\<close>:
  a \<^verbatim>\<open>NULL\<close> cost violates the constraint only when there is a row to update.
\<close>

definition sql_update :: "string \<times> string \<times> number \<times> int \<Rightarrow> int \<Rightarrow> database \<Rightarrow> error + database" where
  "sql_update params i db =
     (case tables db ''products'' of
        None \<Rightarrow> Inl no_such_table
      | Some rows \<Rightarrow>
          (case params of (n, d, c, q) \<Rightarrow>
             if \<not> bindable c \<or> \<not> sqlite_integer q \<or> \<not> sqlite_integer i then Inl OverflowError
             else (case real_column c of
                     None \<Rightarrow>
                       if filter (\<lambda>r. row_id r = i) rows = [] then Inr db else Inl cost_is_null
                   | Some x \<Rightarrow>
                       Inr (db\<lparr>tables := (tables db)(''products'' \<mapsto>
                                  map (\<lambda>r. if row_id r = i
                                            then r\<lparr>name := n, description := d, cost := x, qty := q\<rparr>
                                            else r) rows)\<rparr>))))"

text \<open>\<^verbatim>\<open>DELETE FROM products WHERE id = ?\<close>\<close>

definition sql_delete :: "int \<Rightarrow> database \<Rightarrow> error + database" where
  "sql_delete i db =
     (case tables db ''products'' of
        None \<Rightarrow> Inl no_such_table
      | Some rows \<Rightarrow>
          if \<not> sqlite_integer i then Inl OverflowError
          else Inr (db\<lparr>tables := (tables db)(''products'' \<mapsto> filter (\<lambda>r. row_id r \<noteq> i) rows)\<rparr>))"

subsection \<open>Python values\<close>

text \<open>\<^verbatim>\<open>product[key]\<close>: the value, or \<^verbatim>\<open>KeyError\<close> when the key is absent.\<close>

definition subscript :: "string \<Rightarrow> 'a option \<Rightarrow> error + 'a" where
  "subscript key v = (case v of None \<Rightarrow> Inl (KeyError key) | Some x \<Rightarrow> Inr x)"

text \<open>
  The parameter tuple \<^verbatim>\<open>(product['name'], product['description'], product['cost'],
  product['qty'])\<close>, its components evaluated from left to right.
\<close>

definition params_of :: "product \<Rightarrow> error + (string \<times> string \<times> number \<times> int)" where
  "params_of p =
     (case subscript ''name'' (name_key p) of Inl e \<Rightarrow> Inl e | Inr n \<Rightarrow>
      case subscript ''description'' (description_key p) of Inl e \<Rightarrow> Inl e | Inr d \<Rightarrow>
      case subscript ''cost'' (cost_key p) of Inl e \<Rightarrow> Inl e | Inr c \<Rightarrow>
      case subscript ''qty'' (qty_key p) of Inl e \<Rightarrow> Inl e | Inr q \<Rightarrow>
      Inr (n, d, c, q))"

text \<open>
  \<^verbatim>\<open>dict(row)\<close>: a \<^verbatim>\<open>sqlite3.Row\<close> has keys and converts to a dictionary with the
  row's fields; a plain tuple does not, since \<^verbatim>\<open>dict\<close> wants its first element, the
  integer identifier, to be a key-value pair, and raises \<^verbatim>\<open>TypeError\<close>.
\<close>

definition dict_of_row :: "factory \<Rightarrow> product_row \<Rightarrow> error + product_row" where
  "dict_of_row f r = (case f of Tuple_rows \<Rightarrow> Inl TypeError | Row \<Rightarrow> Inr r)"

text \<open>The comprehension \<^verbatim>\<open>[dict(row) for row in rows]\<close>.\<close>

fun dicts_of_rows :: "factory \<Rightarrow> product_row list \<Rightarrow> error + product_row list" where
  "dicts_of_rows f [] = Inr []"
| "dicts_of_rows f (r # rs) =
     (case dict_of_row f r of
        Inl e \<Rightarrow> Inl e
      | Inr d \<Rightarrow> (case dicts_of_rows f rs of Inl e \<Rightarrow> Inl e | Inr ds \<Rightarrow> Inr (d # ds)))"

text \<open>\<^verbatim>\<open>sorted(products, key=lambda x: x['name'])\<close>, a stable sort.\<close>

definition sorted_by_name :: "product_row list \<Rightarrow> product_row list" where
  "sorted_by_name products = sort_key name products"

subsection \<open>The functions of dao.py\<close>

text \<open>
  \<open>get_connection path\<close> wraps the body of a \<^verbatim>\<open>with\<close> block. \<^verbatim>\<open>sqlite3.connect\<close>
  creates an empty database file when there is none and yields a new open connection with
  the default row factory. The body works on that connection and on the contents of the
  file. The \<^verbatim>\<open>finally\<close> clause then runs \<^verbatim>\<open>conn.commit()\<close> and, after it,
  \<^verbatim>\<open>conn.close()\<close>, whether the body returned or raised: when the commit raises, its
  exception leaves the function before \<^verbatim>\<open>close\<close> is reached and the file keeps its
  committed contents. The connection object is stored at the next free handle.
\<close>

definition get_connection ::
  "string \<Rightarrow> (connection \<Rightarrow> database \<Rightarrow> (error + 'a) \<times> connection \<times> database) \<Rightarrow>
   world \<Rightarrow> (error + 'a) \<times> world" where
  "get_connection path body w =
     (let db = (case files w path of None \<Rightarrow> empty_database | Some d \<Rightarrow> d);
          conn = \<lparr>database_path = path, row_factory = Tuple_rows, is_open = True\<rparr>
      in case body conn db of (r, conn', db') \<Rightarrow>
           if commit_raises w
           then (Inl commit_failed,
                 w\<lparr>files := (files w)(path \<mapsto> db), conns := conns w @ [conn']\<rparr>)
           else (r, w\<lparr>files := (files w)(path \<mapsto> db'),
                      conns := conns w @ [conn'\<lparr>is_open := False\<rparr>]\<rparr>))"

definition products :: "(string \<times> string \<times> number \<times> int) list" where
  "products =
    [(''Backpack'', ''A durable and stylish backpack for daily use.'', Py_float 800, 10),
     (''Wireless Mouse'', ''A sleek and ergonomic wireless mouse with a long battery life.'', Py_float 800, 20),
     (''Bluetooth Speaker'', ''A portable Bluetooth speaker with high-quality sound and deep bass.'', Py_float 3000, 30),
     (''Laptop Stand'', ''An adjustable laptop stand for better posture and cooling.'', Py_float 250, 15),
     (''Notebook'', ''A premium notebook with thick, high-quality paper.'', Py_float 50, 50),
     (''Smartphone Case'', ''A durable and stylish case for protecting your smartphone.'', Py_float 150, 25),
     (''Power Bank'', ''A high-capacity power bank with fast charging support.'', Py_float 900, 20),
     (''Headphones'', ''Over-ear headphones with noise cancellation and deep bass.'', Py_float 5000, 10),
     (''Gaming Keyboard'', ''A mechanical gaming keyboard with RGB lighting.'', Py_float 3000, 10),
     (''USB-C Hub'', ''A multi-port USB-C hub for all your connectivity needs.'', Py_float 400, 25),
     (''Fitness Tracker'', ''A sleek fitness tracker with heart rate monitoring.'', Py_float 1000, 20),
     (''Travel Mug'', ''An insulated travel mug that keeps your drinks hot or cold.'', Py_float 500, 30),
     (''Desk Organizer'', ''A compact desk organizer for keeping your workspace tidy.'', Py_float 1200, 40),
     (''External Hard Drive'', ''A portable external hard drive with 1TB of storage.'', Py_float 800, 15),
     (''Wireless Charger'', ''A fast wireless charger compatible with most devices.'', Py_float 2500, 30),
     (''Digital Camera'', ''A compact digital camera with 4K video recording.'', Py_float 20000, 5),
     (''Electric Kettle'', ''A fast-boiling electric kettle with auto shut-off.'', Py_float 3000, 20),
     (''Smart Watch'', ''A stylish smartwatch with fitness and notification features.'', Py_float 12000, 10),
     (''LED Desk Lamp'', ''A modern LED desk lamp with adjustable brightness.'', Py_float 2000, 35),
     (''Portable Projector'', ''A mini portable projector with HD resolution.'', Py_float 15000, 8)]"

definition insert_initial_data :: "database \<Rightarrow> error + database" where
  "insert_initial_data db = executemany products db"

definition create_tables :: "database \<Rightarrow> error + database" where
  "create_tables db = insert_initial_data (sql_create_table db)"

text \<open>
  \<open>connect\<close> tests \<^verbatim>\<open>os.path.exists(path)\<close> before it opens the connection, creates
  the table and the seed rows only when the file was absent, sets the row factory of the
  connection, and returns the connection after the \<^verbatim>\<open>with\<close> block has ended.
\<close>

definition connect :: "string \<Rightarrow> world \<Rightarrow> (error + nat) \<times> world" where
  "connect path w =
     (let exists = (files w path \<noteq> None)
      in case get_connection path
                (\<lambda>conn db.
                   if \<not> exists
                   then (case create_tables db of
                           Inl e \<Rightarrow> (Inl e, conn, db)
                         | Inr db' \<Rightarrow> (Inr (), conn\<lparr>row_factory := Row\<rparr>, db'))
                   else (Inr (), conn\<lparr>row_factory := Row\<rparr>, db)) w of
           (Inl e, w') \<Rightarrow> (Inl e, w')
         | (Inr u, w') \<Rightarrow> (Inr (length (conns w)), w'))"

definition db_path :: string where
  "db_path = ''products.db''"

definition list_products :: "world \<Rightarrow> (error + product_row list) \<times> world" where
  "list_products w =
     get_connection db_path
       (\<lambda>conn db.
          case sql_select_all db of
            Inl e \<Rightarrow> (Inl e, conn, db)
          | Inr rows \<Rightarrow>
              (case dicts_of_rows (row_factory conn) rows of
                 Inl e \<Rightarrow> (Inl e, conn, db)
               | Inr ds \<Rightarrow> (Inr (sorted_by_name ds), conn, db))) w"

definition add_product :: "product \<Rightarrow> world \<Rightarrow> (error + unit) \<times> world" where
  "add_product product w =
     get_connection db_path
       (\<lambda>conn db.
          case params_of product of
            Inl e \<Rightarrow> (Inl e, conn, db)
          | Inr params \<Rightarrow>
              (case sql_insert params db of
                 Inl e \<Rightarrow> (Inl e, conn, db)
               | Inr db' \<Rightarrow> (Inr (), conn, db'))) w"

definition get_product :: "int \<Rightarrow> world \<Rightarrow> (error + product_row option) \<times> world" where
  "get_product product_id w =
     get_connection db_path
       (\<lambda>conn db.
          case sql_select_where_id product_id db of
            Inl e \<Rightarrow> (Inl e, conn, db)
          | Inr rows \<Rightarrow> (Inr (fetchone rows), conn, db)) w"

definition update_qty :: "int \<Rightarrow> int \<Rightarrow> world \<Rightarrow> (error + unit) \<times> world" where
  "update_qty product_id q w =
     get_connection db_path
       (\<lambda>conn db.
          case sql_update_qty q product_id db of
            Inl e \<Rightarrow> (Inl e, conn, db)
          | Inr db' \<Rightarrow> (Inr (), conn, db')) w"

definition delete_product :: "int \<Rightarrow> world \<Rightarrow> (error + unit) \<times> world" where
  "delete_product product_id w =
     get_connection db_path
       (\<lambda>conn db.
          case sql_delete product_id db of
            Inl e \<Rightarrow> (Inl e, conn, db)
          | Inr db' \<Rightarrow> (Inr (), conn, db')) w"

definition update_product :: "int \<Rightarrow> product \<Rightarrow> world \<Rightarrow> (error + unit) \<times> world" where
  "update_product product_id product w =
     get_connection db_path
       (\<lambda>conn db.
          case params_of product of
            Inl e \<Rightarrow> (Inl e, conn, db)
          | Inr params \<Rightarrow>
              (case sql_update params product_id db of
                 Inl e \<Rightarrow> (Inl e, conn, db)
               | Inr db' \<Rightarrow> (Inr (), conn, db'))) w"


section \<open>Observations, histories and examples\<close>

text \<open>
A machine on which no file exists yet, no connection has been made and commits succeed.
\<close>

definition empty_world :: world where
  "empty_world = \<lparr>files = Map.empty, conns = [], commit_raises = False\<rparr>"

text \<open>
The rows of the \<^verbatim>\<open>products\<close> table in \<^verbatim>\<open>products.db\<close>, the file every function but
\<open>connect\<close> works on; \<open>None\<close> when the file or the table is missing.
\<close>

definition table_of :: "world \<Rightarrow> product_row list option" where
  "table_of w = (case files w db_path of None \<Rightarrow> None | Some db \<Rightarrow> tables db ''products'')"

text \<open>
The counter \<^verbatim>\<open>sqlite_sequence\<close> keeps for the table of \<^verbatim>\<open>products.db\<close>.
\<close>

definition sequence_of :: "world \<Rightarrow> int" where
  "sequence_of w = (case files w db_path of None \<Rightarrow> 0 | Some db \<Rightarrow> sqlite_sequence db)"

text \<open>
The identifiers carried by the rows of the table.
\<close>

definition ids_in_use :: "world \<Rightarrow> int set" where
  "ids_in_use w = (case table_of w of None \<Rightarrow> {} | Some rows \<Rightarrow> set (map row_id rows))"


text \<open>
A history is a list of calls of the module's functions. A call that raises leaves the world
it reached, and the caller goes on.
\<close>

datatype call =
    Connect string
  | List_products
  | Add_product product
  | Get_product int
  | Update_qty int int
  | Delete_product int
  | Update_product int product

fun perform :: "call \<Rightarrow> world \<Rightarrow> world" where
  "perform (Connect path) w = snd (connect path w)"
| "perform List_products w = snd (list_products w)"
| "perform (Add_product p) w = snd (add_product p w)"
| "perform (Get_product i) w = snd (get_product i w)"
| "perform (Update_qty i q) w = snd (update_qty i q w)"
| "perform (Delete_product i) w = snd (delete_product i w)"
| "perform (Update_product i p) w = snd (update_product i p w)"

definition run :: "call list \<Rightarrow> world \<Rightarrow> world" where
  "run cs w = fold perform cs w"

text \<open>
The connection object a function on \<^verbatim>\<open>products.db\<close> leaves behind once its
\<^verbatim>\<open>with\<close> block has committed and closed.
\<close>

definition closed_connection :: connection where
  "closed_connection = \<lparr>database_path = db_path, row_factory = Tuple_rows, is_open = False\<rparr>"

text \<open>
The four columns of a row that a caller supplies, as the Python values they read back as.
\<close>

definition fields :: "product_row \<Rightarrow> string \<times> string \<times> number \<times> int" where
  "fields r = (name r, description r, Py_float (cost r), qty r)"

text \<open>
The store exists, commits succeed, and the counter is at least every identifier in the
table: the state the module keeps once \<open>connect\<close> has created the store.
\<close>

definition store_ok :: "world \<Rightarrow> bool" where
  "store_ok w =
     (\<not> commit_raises w \<and>
      (case table_of w of
         None \<Rightarrow> False
       | Some rows \<Rightarrow> list_all (\<lambda>r. row_id r \<le> sequence_of w) rows))"

text \<open>
The constraints the data model states for a row: a non-empty name, a non-negative cost and
a non-negative quantity.
\<close>

definition valid_row :: "product_row \<Rightarrow> bool" where
  "valid_row r = (name r \<noteq> [] \<and> 0 \<le> cost r \<and> 0 \<le> qty r)"

definition non_negative :: "number \<Rightarrow> bool" where
  "non_negative c = (case c of Py_int i \<Rightarrow> 0 \<le> i | Py_float x \<Rightarrow> 0 \<le> x | Py_nan \<Rightarrow> False)"

text \<open>
A dictionary whose values meet those constraints (one with a key missing inserts nothing).
\<close>

definition valid_product :: "product \<Rightarrow> bool" where
  "valid_product p =
     (case params_of p of
        Inl e \<Rightarrow> True
      | Inr (n, d, c, q) \<Rightarrow> n \<noteq> [] \<and> non_negative c \<and> 0 \<le> q)"

fun valid_call :: "call \<Rightarrow> bool" where
  "valid_call (Add_product p) = valid_product p"
| "valid_call (Update_product i p) = valid_product p"
| "valid_call (Update_qty i q) = (0 \<le> q)"
| "valid_call c = True"

definition all_rows_valid :: "world \<Rightarrow> bool" where
  "all_rows_valid w = (case table_of w of None \<Rightarrow> True | Some rows \<Rightarrow> list_all valid_row rows)"



text \<open>
Example data: the pen of the specification's example, a store holding that one row, a store
holding two rows, a dictionary with an empty name and negative numbers, the integer one
beyond the largest SQLite integer, and the pen with that quantity.
\<close>

definition pen :: product where
  "pen = \<lparr>name_key = Some ''Pen'', description_key = Some ''Blue ink pen'',
          cost_key = Some (Py_float 20), qty_key = Some 100\<rparr>"

definition pen_row :: product_row where
  "pen_row = \<lparr>row_id = 1, name = ''Pen'', description = ''Blue ink pen'', cost = 20, qty = 100\<rparr>"


definition ink_row :: product_row where
  "ink_row = \<lparr>row_id = 2, name = ''Ink'', description = ''Blue ink'', cost = 5, qty = 40\<rparr>"

definition two_row_store :: world where
  "two_row_store =
     \<lparr>files = [db_path \<mapsto> \<lparr>tables = [''products'' \<mapsto> [pen_row, ink_row]], sqlite_sequence = 2\<rparr>],
      conns = [], commit_raises = False\<rparr>"

definition unvalidated :: product where
  "unvalidated = \<lparr>name_key = Some [], description_key = Some [],
                cost_key = Some (Py_float (- 1)), qty_key = Some (- 1)\<rparr>"

definition too_large :: int where
  "too_large = 2 ^ 63"


text \<open>
A parameter tuple like those of the seed list: a float cost and a quantity that is an SQLite
integer.
\<close>

definition seedable :: "string \<times> string \<times> number \<times> int \<Rightarrow> bool" where
  "seedable p = (case p of (n, d, c, q) \<Rightarrow> (case c of Py_float x \<Rightarrow> sqlite_integer q | _ \<Rightarrow> False))"


section \<open>Properties\<close>

subsection \<open>Arithmetic of identifiers and numbers\<close>

lemma map_upd_same: "m k = Some v \<Longrightarrow> m(k \<mapsto> v) = m"
  by (rule ext) simp




lemma fold_max_bounded: "\<forall>r\<in>set rows. row_id r \<le> s \<Longrightarrow> fold max (map row_id rows) s = s"
  by (induction rows) (simp_all add: max_absorb2)

lemma next_id_consistent:
  "\<forall>r\<in>set rows. row_id r \<le> sqlite_sequence db \<Longrightarrow> next_id db rows = sqlite_sequence db + 1"
  by (simp add: next_id_def fold_max_bounded)

lemma round_half_even_nonneg: "0 \<le> a \<Longrightarrow> 0 \<le> round_half_even a e"
  by (simp add: round_half_even_def Let_def pos_imp_zdiv_nonneg_iff)

lemma to_double_nonneg: "0 \<le> i \<Longrightarrow> 0 \<le> to_double i"
  using round_half_even_nonneg [of "\<bar>i\<bar>" "excess_bits \<bar>i\<bar>"]
  by (simp add: to_double_def sgn_if)

text \<open>Every int of magnitude up to \<open>2 ^ 53\<close> converts to a double exactly.\<close>

lemma to_double_exact:
  assumes "\<bar>i\<bar> \<le> 2 ^ 53"
  shows "to_double i = real_of_int i"
proof (cases "\<bar>i\<bar> < 2 ^ 53")
  case True
  then have "excess_bits \<bar>i\<bar> = 0" by (simp add: excess_bits.simps)
  then have "round_half_even \<bar>i\<bar> (excess_bits \<bar>i\<bar>) = \<bar>i\<bar>"
    by (simp add: round_half_even_def)
  then show ?thesis by (simp add: to_double_def mult_sgn_abs)
next
  case False
  with assms have a: "\<bar>i\<bar> = 2 ^ 53" by simp
  have "excess_bits (2 ^ 53) = Suc (excess_bits (2 ^ 52))"
    by (subst excess_bits.simps) simp
  also have "excess_bits (2 ^ 52) = 0"
    by (subst excess_bits.simps) simp
  finally have "round_half_even \<bar>i\<bar> (excess_bits \<bar>i\<bar>) = \<bar>i\<bar>"
    by (simp add: a round_half_even_def)
  then show ?thesis by (simp add: to_double_def mult_sgn_abs)
qed

text \<open>The first int that does not: it lies halfway between two doubles.\<close>

lemma to_double_rounds: "to_double (2 ^ 53 + 1) = 2 ^ 53"
proof -
  have "excess_bits (2 ^ 53 + 1) = Suc (excess_bits (2 ^ 52))"
    by (subst excess_bits.simps) simp
  also have "excess_bits (2 ^ 52) = 0"
    by (subst excess_bits.simps) simp
  finally show ?thesis
    by (simp add: to_double_def round_half_even_def)
qed

lemma real_column_non_negative: "non_negative c \<Longrightarrow> real_column c = Some x \<Longrightarrow> 0 \<le> x"
  by (cases c) (auto simp: non_negative_def real_column_def to_double_nonneg)


subsection \<open>What each function does to an existing store\<close>

text \<open>
  With commits succeeding, a call on a store whose table exists either leaves every file
  as it was (it only read, it raised, or it matched nothing) or has the effect of its
  statement.
\<close>

lemma get_product_effect:
  assumes "\<not> commit_raises w" "files w db_path = Some db" "tables db ''products'' = Some rows"
  shows "get_product i w =
    (if sqlite_integer i then Inr (fetchone (filter (\<lambda>r. row_id r = i) rows)) else Inl OverflowError,
     w\<lparr>conns := conns w @ [closed_connection]\<rparr>)"
  using assms
  by (simp add: get_product_def get_connection_def sql_select_where_id_def closed_connection_def map_upd_same)

lemma add_product_key_error:
  assumes "\<not> commit_raises w" "files w db_path = Some db" "params_of p = Inl e"
  shows "add_product p w = (Inl e, w\<lparr>conns := conns w @ [closed_connection]\<rparr>)"
  using assms by (simp add: add_product_def get_connection_def closed_connection_def map_upd_same)

lemma add_product_raises:
  assumes "\<not> commit_raises w" "files w db_path = Some db" "params_of p = Inr params"
    and "sql_insert params db = Inl e"
  shows "add_product p w = (Inl e, w\<lparr>conns := conns w @ [closed_connection]\<rparr>)"
  using assms by (simp add: add_product_def get_connection_def closed_connection_def map_upd_same)

lemma sql_insert_ok:
  assumes "tables db ''products'' = Some rows" "bindable c" "sqlite_integer q"
    and "sqlite_integer (next_id db rows)" "real_column c = Some x"
  shows "sql_insert (n, d, c, q) db =
    Inr (db\<lparr>tables := (tables db)(''products'' \<mapsto>
                 rows @ [\<lparr>row_id = next_id db rows, name = n, description = d,
                          cost = x, qty = q\<rparr>]),
            sqlite_sequence := next_id db rows\<rparr>)"
  using assms by (simp add: sql_insert_def)

lemma sql_insert_cases:
  assumes "tables db ''products'' = Some rows"
  shows "(\<exists>e. sql_insert (n, d, c, q) db = Inl e)
       \<or> (\<exists>x. bindable c \<and> sqlite_integer q \<and> sqlite_integer (next_id db rows)
              \<and> real_column c = Some x)"
  using assms by (cases "real_column c") (simp_all add: sql_insert_def)

lemma add_product_effect:
  assumes "\<not> commit_raises w" "files w db_path = Some db" "tables db ''products'' = Some rows"
    and "params_of p = Inr (n, d, c, q)" "bindable c" "sqlite_integer q"
    and "sqlite_integer (next_id db rows)" "real_column c = Some x"
  shows "add_product p w =
    (Inr (), w\<lparr>files := (files w)(db_path \<mapsto>
                 db\<lparr>tables := (tables db)(''products'' \<mapsto>
                        rows @ [\<lparr>row_id = next_id db rows, name = n, description = d,
                                 cost = x, qty = q\<rparr>]),
                     sqlite_sequence := next_id db rows\<rparr>),
              conns := conns w @ [closed_connection]\<rparr>)"
  using assms(1,2,4)
  by (simp add: add_product_def get_connection_def closed_connection_def
      sql_insert_ok [OF assms(3,5-8)])

lemma update_qty_raises:
  assumes "\<not> commit_raises w" "files w db_path = Some db" "tables db ''products'' = Some rows"
    and "\<not> sqlite_integer q \<or> \<not> sqlite_integer i"
  shows "update_qty i q w = (Inl OverflowError, w\<lparr>conns := conns w @ [closed_connection]\<rparr>)"
  using assms
  by (auto simp add: update_qty_def get_connection_def sql_update_qty_def closed_connection_def
      map_upd_same)

lemma update_qty_effect:
  assumes "\<not> commit_raises w" "files w db_path = Some db" "tables db ''products'' = Some rows"
    and "sqlite_integer q" "sqlite_integer i"
  shows "update_qty i q w =
    (Inr (), w\<lparr>files := (files w)(db_path \<mapsto>
                 db\<lparr>tables := (tables db)(''products'' \<mapsto>
                        map (\<lambda>r. if row_id r = i then r\<lparr>qty := q\<rparr> else r) rows)\<rparr>),
              conns := conns w @ [closed_connection]\<rparr>)"
  using assms by (simp add: update_qty_def get_connection_def sql_update_qty_def closed_connection_def)

lemma delete_product_raises:
  assumes "\<not> commit_raises w" "files w db_path = Some db" "tables db ''products'' = Some rows"
    and "\<not> sqlite_integer i"
  shows "delete_product i w = (Inl OverflowError, w\<lparr>conns := conns w @ [closed_connection]\<rparr>)"
  using assms
  by (simp add: delete_product_def get_connection_def sql_delete_def closed_connection_def
      map_upd_same)

lemma delete_product_effect:
  assumes "\<not> commit_raises w" "files w db_path = Some db" "tables db ''products'' = Some rows"
    and "sqlite_integer i"
  shows "delete_product i w =
    (Inr (), w\<lparr>files := (files w)(db_path \<mapsto>
                 db\<lparr>tables := (tables db)(''products'' \<mapsto> filter (\<lambda>r. row_id r \<noteq> i) rows)\<rparr>),
              conns := conns w @ [closed_connection]\<rparr>)"
  using assms by (simp add: delete_product_def get_connection_def sql_delete_def closed_connection_def)

lemma update_product_key_error:
  assumes "\<not> commit_raises w" "files w db_path = Some db" "params_of p = Inl e"
  shows "update_product i p w = (Inl e, w\<lparr>conns := conns w @ [closed_connection]\<rparr>)"
  using assms by (simp add: update_product_def get_connection_def closed_connection_def map_upd_same)

lemma update_product_unchanged:
  assumes "\<not> commit_raises w" "files w db_path = Some db" "params_of p = Inr params"
    and "sql_update params i db = Inl e \<or> sql_update params i db = Inr db"
  shows "\<exists>r. update_product i p w = (r, w\<lparr>conns := conns w @ [closed_connection]\<rparr>)"
  using assms
  by (auto simp add: update_product_def get_connection_def closed_connection_def map_upd_same)

lemma sql_update_ok:
  assumes "tables db ''products'' = Some rows" "bindable c" "sqlite_integer q" "sqlite_integer i"
    and "real_column c = Some x"
  shows "sql_update (n, d, c, q) i db =
    Inr (db\<lparr>tables := (tables db)(''products'' \<mapsto>
                 map (\<lambda>r. if row_id r = i
                           then r\<lparr>name := n, description := d, cost := x, qty := q\<rparr>
                           else r) rows)\<rparr>)"
  using assms by (simp add: sql_update_def)

lemma sql_update_cases:
  assumes "tables db ''products'' = Some rows"
  shows "(\<exists>e. sql_update (n, d, c, q) i db = Inl e)
       \<or> sql_update (n, d, c, q) i db = Inr db
       \<or> (\<exists>x. bindable c \<and> sqlite_integer q \<and> sqlite_integer i \<and> real_column c = Some x)"
  using assms by (cases "real_column c") (simp_all add: sql_update_def)

lemma update_product_effect:
  assumes "\<not> commit_raises w" "files w db_path = Some db" "tables db ''products'' = Some rows"
    and "params_of p = Inr (n, d, c, q)" "bindable c" "sqlite_integer q" "sqlite_integer i"
    and "real_column c = Some x"
  shows "update_product i p w =
    (Inr (), w\<lparr>files := (files w)(db_path \<mapsto>
                 db\<lparr>tables := (tables db)(''products'' \<mapsto>
                        map (\<lambda>r. if row_id r = i
                                  then r\<lparr>name := n, description := d, cost := x, qty := q\<rparr>
                                  else r) rows)\<rparr>),
              conns := conns w @ [closed_connection]\<rparr>)"
  using assms(1,2,4)
  by (simp add: update_product_def get_connection_def closed_connection_def
      sql_update_ok [OF assms(3,5-8)])

lemma dicts_of_tuple_rows: "dicts_of_rows Tuple_rows rows = (if rows = [] then Inr [] else Inl TypeError)"
  by (cases rows) (simp_all add: dict_of_row_def)

lemma list_products_effect:
  assumes "\<not> commit_raises w" "files w db_path = Some db" "tables db ''products'' = Some rows"
  shows "list_products w =
    (if rows = [] then Inr [] else Inl TypeError, w\<lparr>conns := conns w @ [closed_connection]\<rparr>)"
  using assms
  by (simp add: list_products_def get_connection_def sql_select_all_def closed_connection_def
      map_upd_same dicts_of_tuple_rows sorted_by_name_def)

lemma connect_existing_effect:
  assumes "\<not> commit_raises w" "files w path = Some db"
  shows "connect path w =
    (Inr (length (conns w)),
     w\<lparr>conns := conns w @ [\<lparr>database_path = path, row_factory = Row, is_open = False\<rparr>]\<rparr>)"
  using assms by (simp add: connect_def get_connection_def map_upd_same)

lemma table_ofD:
  "table_of w = Some rows \<Longrightarrow> \<exists>db. files w db_path = Some db \<and> tables db ''products'' = Some rows"
  by (auto simp: table_of_def split: option.splits)

lemma get_productD:
  assumes "\<not> commit_raises w" "fst (get_product i w) = Inr x"
  shows "\<exists>db rows. files w db_path = Some db \<and> tables db ''products'' = Some rows
          \<and> sqlite_integer i \<and> x = fetchone (filter (\<lambda>r. row_id r = i) rows)"
  using assms
  by (auto simp: get_product_def get_connection_def sql_select_where_id_def empty_database_def
      split: option.splits if_splits)

lemma params_of_cases:
  obtains e where "params_of p = Inl e" | n d c q where "params_of p = Inr (n, d, c, q)"
  by (cases "params_of p") auto



subsection \<open>Selecting and rewriting rows by identifier\<close>

lemma fetchone_filter_None: "i \<notin> set (map row_id rows) \<Longrightarrow> fetchone (filter (\<lambda>r. row_id r = i) rows) = None"
proof -
  assume "i \<notin> set (map row_id rows)"
  then have "filter (\<lambda>r. row_id r = i) rows = []"
    by (auto simp: filter_empty_conv)
  then show ?thesis by simp
qed

lemma filter_other_id: "i \<notin> set (map row_id rows) \<Longrightarrow> filter (\<lambda>r. row_id r \<noteq> i) rows = rows"
  by (induction rows) auto


lemma fetchone_map_update:
  "(\<And>x. row_id (f x) = row_id x) \<Longrightarrow>
   fetchone (filter (\<lambda>r. row_id r = i) rows) = Some r \<Longrightarrow>
   fetchone (filter (\<lambda>r. row_id r = i) (map (\<lambda>r. if row_id r = i then f r else r) rows)) = Some (f r)"
  by (induction rows) (auto split: if_splits)

lemma filter_map_other:
  "(\<And>x. row_id (f x) = row_id x) \<Longrightarrow> j \<noteq> i \<Longrightarrow> filter (\<lambda>r. row_id r = j) (map (\<lambda>r. if row_id r = i then f r else r) rows)
     = filter (\<lambda>r. row_id r = j) rows"
  by (induction rows) auto

subsection \<open>Seeding\<close>

lemma executemany_rows:
  assumes "tables db ''products'' = Some rows" and "\<forall>r\<in>set rows. row_id r \<le> sqlite_sequence db"
    and "list_all seedable ps"
    and "0 \<le> sqlite_sequence db" and "sqlite_sequence db + int (length ps) < 2 ^ 63"
  shows "\<exists>new. executemany ps db =
            Inr (db\<lparr>tables := (tables db)(''products'' \<mapsto> rows @ new),
                    sqlite_sequence := sqlite_sequence db + int (length ps)\<rparr>)
          \<and> map fields new = ps
          \<and> map row_id new = [sqlite_sequence db + 1 .. sqlite_sequence db + int (length ps)]"
  using assms
proof (induction ps arbitrary: db rows)
  case Nil
  have "db\<lparr>tables := (tables db)(''products'' \<mapsto> rows @ []),
           sqlite_sequence := sqlite_sequence db + int (length ([] :: (string \<times> string \<times> number \<times> int) list))\<rparr> = db"
    using Nil.prems(1) by (simp add: map_upd_same)
  then have "executemany [] db =
      Inr (db\<lparr>tables := (tables db)(''products'' \<mapsto> rows @ []),
              sqlite_sequence := sqlite_sequence db + int (length ([] :: (string \<times> string \<times> number \<times> int) list))\<rparr>)"
    by (simp only: executemany.simps)
  moreover have "map fields [] = ([] :: (string \<times> string \<times> number \<times> int) list)" by simp
  moreover have "map row_id [] = [sqlite_sequence db + 1 ..
      sqlite_sequence db + int (length ([] :: (string \<times> string \<times> number \<times> int) list))]" by simp
  ultimately show ?case by (intro exI [of _ "[]"] conjI)
next
  case (Cons p ps)
  obtain n d c q where p0: "p = (n, d, c, q)" by (cases p) auto
  with Cons.prems(3) obtain x where p: "p = (n, d, Py_float x, q)" and q: "sqlite_integer q"
    by (cases c) (auto simp: seedable_def)
  let ?s = "sqlite_sequence db"
  let ?row = "\<lparr>row_id = ?s + 1, name = n, description = d, cost = x, qty = q\<rparr>"
  let ?db1 = "db\<lparr>tables := (tables db)(''products'' \<mapsto> rows @ [?row]), sqlite_sequence := ?s + 1\<rparr>"
  have nx: "next_id db rows = ?s + 1"
    using Cons.prems(2) by (rule next_id_consistent)
  have "sqlite_integer (?s + 1)"
    using Cons.prems(4,5) by (simp add: sqlite_integer_def)
  then have ins: "sql_insert p db = Inr ?db1"
    using sql_insert_ok [OF Cons.prems(1), of "Py_float x" q x n d] q
    by (simp add: p nx bindable_def real_column_def)
  have t1: "tables ?db1 ''products'' = Some (rows @ [?row])" by simp
  have c1: "\<forall>r\<in>set (rows @ [?row]). row_id r \<le> sqlite_sequence ?db1"
    using Cons.prems(2) by auto
  have r1: "list_all seedable ps" "0 \<le> sqlite_sequence ?db1"
    "sqlite_sequence ?db1 + int (length ps) < 2 ^ 63"
    using Cons.prems(3-5) by simp_all
  from Cons.IH [OF t1 c1 r1] obtain new where
    ex: "executemany ps ?db1 =
           Inr (?db1\<lparr>tables := (tables ?db1)(''products'' \<mapsto> (rows @ [?row]) @ new),
                     sqlite_sequence := sqlite_sequence ?db1 + int (length ps)\<rparr>)"
    and f: "map fields new = ps"
    and i: "map row_id new = [sqlite_sequence ?db1 + 1 .. sqlite_sequence ?db1 + int (length ps)]"
    by blast
  have "executemany (p # ps) db =
          Inr (db\<lparr>tables := (tables db)(''products'' \<mapsto> rows @ (?row # new)),
                  sqlite_sequence := ?s + int (length (p # ps))\<rparr>)"
    using ins ex by (simp add: add.assoc)
  moreover have "map fields (?row # new) = p # ps"
    using f by (simp add: fields_def p)
  moreover have "map row_id (?row # new) = [?s + 1 .. ?s + int (length (p # ps))]"
    using i by (simp add: upto_rec1 [of "?s + 1"] add.assoc)
  ultimately show ?case by (intro exI [of _ "?row # new"] conjI)
qed

lemma products_seedable: "list_all seedable products"
  by (simp add: products_def seedable_def sqlite_integer_def)

lemma length_products: "length products = 20"
  by (simp add: products_def)

lemma create_tables_empty_database:
  "\<exists>rows. create_tables empty_database = Inr \<lparr>tables = [''products'' \<mapsto> rows], sqlite_sequence = 20\<rparr>
     \<and> map fields rows = products \<and> map row_id rows = [1..20]"
proof -
  let ?db = "empty_database\<lparr>tables := [''products'' \<mapsto> []]\<rparr>"
  have c: "sql_create_table empty_database = ?db"
    by (simp add: sql_create_table_def empty_database_def)
  have "tables ?db ''products'' = Some []" by simp
  moreover have "\<forall>r\<in>set []. row_id r \<le> sqlite_sequence ?db" by simp
  moreover have "0 \<le> sqlite_sequence ?db" "sqlite_sequence ?db + int (length products) < 2 ^ 63"
    by (simp_all add: empty_database_def length_products)
  ultimately obtain new where
    "executemany products ?db =
        Inr (?db\<lparr>tables := (tables ?db)(''products'' \<mapsto> [] @ new),
                sqlite_sequence := sqlite_sequence ?db + int (length products)\<rparr>)"
    and "map fields new = products"
    and "map row_id new = [sqlite_sequence ?db + 1 .. sqlite_sequence ?db + int (length products)]"
    using executemany_rows [of ?db "[]" products] products_seedable by blast
  then have "create_tables empty_database = Inr \<lparr>tables = [''products'' \<mapsto> new], sqlite_sequence = 20\<rparr>"
    and "map fields new = products" and "map row_id new = [1..20]"
    by (simp_all add: create_tables_def insert_initial_data_def c length_products)
      (simp_all add: empty_database_def)
  then show ?thesis by (intro exI [of _ new] conjI)
qed

lemma connect_fresh_effect:
  assumes "files w path = None" and "\<not> commit_raises w" and "create_tables empty_database = Inr db"
  shows "connect path w =
    (Inr (length (conns w)),
     w\<lparr>files := (files w)(path \<mapsto> db),
       conns := conns w @ [\<lparr>database_path = path, row_factory = Row, is_open = False\<rparr>]\<rparr>)"
  using assms by (simp add: connect_def get_connection_def)

lemma seeded_store:
  "\<exists>rows. snd (connect db_path empty_world) =
      \<lparr>files = [db_path \<mapsto> \<lparr>tables = [''products'' \<mapsto> rows], sqlite_sequence = 20\<rparr>],
       conns = [\<lparr>database_path = db_path, row_factory = Row, is_open = False\<rparr>],
       commit_raises = False\<rparr>
     \<and> fst (connect db_path empty_world) = Inr 0
     \<and> map fields rows = products \<and> map row_id rows = [1..20]"
proof -
  from create_tables_empty_database obtain rows where
    ct: "create_tables empty_database = Inr \<lparr>tables = [''products'' \<mapsto> rows], sqlite_sequence = 20\<rparr>"
    and f: "map fields rows = products" and i: "map row_id rows = [1..20]"
    by blast
  have n: "files empty_world db_path = None" and h: "\<not> commit_raises empty_world"
    by (simp_all add: empty_world_def)
  have "connect db_path empty_world =
    (Inr 0, \<lparr>files = [db_path \<mapsto> \<lparr>tables = [''products'' \<mapsto> rows], sqlite_sequence = 20\<rparr>],
       conns = [\<lparr>database_path = db_path, row_factory = Row, is_open = False\<rparr>],
       commit_raises = False\<rparr>)"
    by (simp add: connect_fresh_effect [OF n h ct]) (simp add: empty_world_def)
  then show ?thesis using f i by (intro exI [of _ rows]) simp
qed

lemma products_valid:
  "list_all (\<lambda>(n, d, c, q). n \<noteq> [] \<and> non_negative c \<and> (0::int) \<le> q) products"
  by (simp add: products_def non_negative_def)

lemma seed_rows_valid:
  assumes "map fields rows = products"
  shows "list_all valid_row rows"
proof -
  have "list_all (\<lambda>(n, d, c, q). n \<noteq> [] \<and> non_negative c \<and> (0::int) \<le> q) (map fields rows)"
    by (simp only: assms products_valid)
  then show ?thesis
    by (simp add: list_all_iff fields_def valid_row_def non_negative_def)
qed

lemma connect_rows_valid:
  assumes "files w db_path = None" and "\<not> commit_raises w"
  shows "all_rows_valid (snd (connect db_path w))"
proof -
  from create_tables_empty_database obtain rows where
    ct: "create_tables empty_database = Inr \<lparr>tables = [''products'' \<mapsto> rows], sqlite_sequence = 20\<rparr>"
    and f: "map fields rows = products"
    by blast
  show ?thesis
    using seed_rows_valid [OF f]
    by (simp add: connect_fresh_effect [OF assms ct] all_rows_valid_def table_of_def)
qed

subsection \<open>The connection life cycle\<close>

text \<open>
When the commit succeeds the connection is closed, whatever the body returned or raised.
\<close>

lemma get_connection_closes:
  "\<not> commit_raises w \<Longrightarrow>
   \<exists>c. conns (snd (get_connection path body w)) = conns w @ [c] \<and> \<not> is_open c"
  by (simp add: get_connection_def Let_def split: prod.splits)

lemma get_connection_commit_raises:
  "commit_raises w \<Longrightarrow>
   fst (get_connection path body w) = Inl commit_failed
   \<and> conns (snd (get_connection path body w)) =
        conns w @ [fst (snd (body \<lparr>database_path = path, row_factory = Tuple_rows, is_open = True\<rparr>
                              (case files w path of None \<Rightarrow> empty_database | Some d \<Rightarrow> d)))]"
  by (simp add: get_connection_def Let_def split: prod.splits)

subsection \<open>Invariants of a history\<close>

lemma store_okD:
  "store_ok w \<Longrightarrow> \<exists>db rows. \<not> commit_raises w \<and> files w db_path = Some db
      \<and> tables db ''products'' = Some rows \<and> (\<forall>r\<in>set rows. row_id r \<le> sqlite_sequence db)"
  by (auto simp: store_ok_def table_of_def sequence_of_def list_all_iff split: option.splits)

lemmas store_defs = store_ok_def table_of_def sequence_of_def list_all_iff

lemma perform_store_ok:
  assumes "store_ok w"
  shows "store_ok (perform c w) \<and> sequence_of w \<le> sequence_of (perform c w)"
proof -
  from store_okD [OF assms] obtain db rows where
    h: "\<not> commit_raises w" and db: "files w db_path = Some db"
    and rows: "tables db ''products'' = Some rows"
    and le: "\<forall>r\<in>set rows. row_id r \<le> sqlite_sequence db"
    by blast
  show ?thesis
  proof (cases c)
    case (Connect path)
    show ?thesis
    proof (cases "files w path")
      case None
      then have ne: "path \<noteq> db_path" using db by auto
      from create_tables_empty_database obtain rs where
        ct: "create_tables empty_database = Inr \<lparr>tables = [''products'' \<mapsto> rs], sqlite_sequence = 20\<rparr>"
        by blast
      show ?thesis
        using h db rows le ne
        by (simp add: Connect connect_fresh_effect [OF None h ct] store_defs)
    next
      case (Some d)
      show ?thesis
        using h db rows le
        by (simp add: Connect connect_existing_effect [OF h Some] store_defs)
    qed
  next
    case List_products
    show ?thesis
      using h db rows le
      by (simp add: List_products list_products_effect [OF h db rows] store_defs)
  next
    case (Add_product p)
    show ?thesis
    proof (cases p rule: params_of_cases)
      case (1 e)
      show ?thesis
        using h db rows le
        by (simp add: Add_product add_product_key_error [OF h db 1] store_defs)
    next
      case (2 n d c q)
      from sql_insert_cases [OF rows, of n d c q] show ?thesis
      proof (elim disjE exE conjE)
        fix e assume "sql_insert (n, d, c, q) db = Inl e"
        then show ?thesis
          using h db rows le
          by (simp add: Add_product add_product_raises [OF h db 2] store_defs)
      next
        fix x assume ok: "bindable c" "sqlite_integer q" "sqlite_integer (next_id db rows)"
          "real_column c = Some x"
        have "\<forall>r\<in>set rows. row_id r \<le> sqlite_sequence db + 1" using le by auto
        then show ?thesis
          using h db rows le
          by (simp add: Add_product add_product_effect [OF h db rows 2 ok] store_defs
              next_id_consistent)
      qed
    qed
  next
    case (Get_product i)
    show ?thesis
      using h db rows le
      by (simp add: Get_product get_product_effect [OF h db rows] store_defs)
  next
    case (Update_qty i q)
    show ?thesis
    proof (cases "sqlite_integer q \<and> sqlite_integer i")
      case True
      then have ok: "sqlite_integer q" "sqlite_integer i" by simp_all
      show ?thesis
        using h db rows le
        by (auto simp add: Update_qty update_qty_effect [OF h db rows ok] store_defs)
    next
      case False
      then have "\<not> sqlite_integer q \<or> \<not> sqlite_integer i" by simp
      then show ?thesis
        using h db rows le
        by (simp add: Update_qty update_qty_raises [OF h db rows] store_defs)
    qed
  next
    case (Delete_product i)
    show ?thesis
    proof (cases "sqlite_integer i")
      case True
      show ?thesis
        using h db rows le
        by (simp add: Delete_product delete_product_effect [OF h db rows True] store_defs)
    next
      case False
      show ?thesis
        using h db rows le
        by (simp add: Delete_product delete_product_raises [OF h db rows False] store_defs)
    qed
  next
    case (Update_product i p)
    show ?thesis
    proof (cases p rule: params_of_cases)
      case (1 e)
      show ?thesis
        using h db rows le
        by (simp add: Update_product update_product_key_error [OF h db 1] store_defs)
    next
      case (2 n d c q)
      from sql_update_cases [OF rows, of n d c q i] show ?thesis
      proof (elim disjE exE conjE)
        fix e assume "sql_update (n, d, c, q) i db = Inl e"
        then obtain r where "update_product i p w = (r, w\<lparr>conns := conns w @ [closed_connection]\<rparr>)"
          using update_product_unchanged [OF h db 2] by blast
        then show ?thesis
          using h db rows le by (simp add: Update_product store_defs)
      next
        assume "sql_update (n, d, c, q) i db = Inr db"
        then obtain r where "update_product i p w = (r, w\<lparr>conns := conns w @ [closed_connection]\<rparr>)"
          using update_product_unchanged [OF h db 2] by blast
        then show ?thesis
          using h db rows le by (simp add: Update_product store_defs)
      next
        fix x assume ok: "bindable c" "sqlite_integer q" "sqlite_integer i" "real_column c = Some x"
        show ?thesis
          using h db rows le
          by (auto simp add: Update_product update_product_effect [OF h db rows 2 ok] store_defs)
      qed
    qed
  qed
qed



lemma connect_store_ok:
  assumes "files w db_path = None" and "\<not> commit_raises w"
  shows "store_ok (snd (connect db_path w))"
proof -
  from create_tables_empty_database obtain rows where
    ct: "create_tables empty_database = Inr \<lparr>tables = [''products'' \<mapsto> rows], sqlite_sequence = 20\<rparr>"
    and i: "map row_id rows = [1..20]"
    by blast
  have "\<forall>x\<in>set (map row_id rows). x \<le> 20" by (simp only: i) simp
  then have "\<forall>r\<in>set rows. row_id r \<le> 20" by simp
  then show ?thesis
    using assms(2)
    by (simp add: connect_fresh_effect [OF assms ct] store_ok_def table_of_def sequence_of_def
        list_all_iff)
qed


lemmas valid_defs = all_rows_valid_def table_of_def list_all_iff

lemma perform_rows_valid:
  assumes "store_ok w" and "all_rows_valid w" and "valid_call c"
  shows "all_rows_valid (perform c w)"
proof -
  from store_okD [OF assms(1)] obtain db rows where
    h: "\<not> commit_raises w" and db: "files w db_path = Some db"
    and rows: "tables db ''products'' = Some rows"
    by blast
  have v: "\<forall>r\<in>set rows. valid_row r"
    using assms(2) db rows by (simp add: valid_defs)
  show ?thesis
  proof (cases c)
    case (Connect path)
    show ?thesis
    proof (cases "files w path")
      case None
      then have ne: "path \<noteq> db_path" using db by auto
      from create_tables_empty_database obtain rs where
        ct: "create_tables empty_database = Inr \<lparr>tables = [''products'' \<mapsto> rs], sqlite_sequence = 20\<rparr>"
        by blast
      show ?thesis
        using db rows v ne
        by (simp add: Connect connect_fresh_effect [OF None h ct] valid_defs)
    next
      case (Some d)
      show ?thesis
        using db rows v
        by (simp add: Connect connect_existing_effect [OF h Some] valid_defs)
    qed
  next
    case List_products
    show ?thesis
      using db rows v
      by (simp add: List_products list_products_effect [OF h db rows] valid_defs)
  next
    case (Add_product p)
    show ?thesis
    proof (cases p rule: params_of_cases)
      case (1 e)
      show ?thesis
        using db rows v
        by (simp add: Add_product add_product_key_error [OF h db 1] valid_defs)
    next
      case (2 n d c q)
      from sql_insert_cases [OF rows, of n d c q] show ?thesis
      proof (elim disjE exE conjE)
        fix e assume "sql_insert (n, d, c, q) db = Inl e"
        then show ?thesis
          using db rows v
          by (simp add: Add_product add_product_raises [OF h db 2] valid_defs)
      next
        fix x assume ok: "bindable c" "sqlite_integer q" "sqlite_integer (next_id db rows)"
          "real_column c = Some x"
        have "n \<noteq> []" "non_negative c" "0 \<le> q"
          using assms(3) by (simp_all add: Add_product valid_product_def 2)
        then have "valid_row \<lparr>row_id = next_id db rows, name = n, description = d, cost = x, qty = q\<rparr>"
          using real_column_non_negative [OF _ ok(4)] by (simp add: valid_row_def)
        then show ?thesis
          using db rows v
          by (simp add: Add_product add_product_effect [OF h db rows 2 ok] valid_defs)
      qed
    qed
  next
    case (Get_product i)
    show ?thesis
      using db rows v
      by (simp add: Get_product get_product_effect [OF h db rows] valid_defs)
  next
    case (Update_qty i q)
    show ?thesis
    proof (cases "sqlite_integer q \<and> sqlite_integer i")
      case True
      then have ok: "sqlite_integer q" "sqlite_integer i" by simp_all
      have "valid_row (r\<lparr>qty := q\<rparr>)" if "r \<in> set rows" for r
        using assms(3) v that by (simp add: Update_qty valid_row_def)
      then show ?thesis
        using db rows v
        by (auto simp add: Update_qty update_qty_effect [OF h db rows ok] valid_defs)
    next
      case False
      then have "\<not> sqlite_integer q \<or> \<not> sqlite_integer i" by simp
      then show ?thesis
        using db rows v
        by (simp add: Update_qty update_qty_raises [OF h db rows] valid_defs)
    qed
  next
    case (Delete_product i)
    show ?thesis
    proof (cases "sqlite_integer i")
      case True
      show ?thesis
        using db rows v
        by (simp add: Delete_product delete_product_effect [OF h db rows True] valid_defs)
    next
      case False
      show ?thesis
        using db rows v
        by (simp add: Delete_product delete_product_raises [OF h db rows False] valid_defs)
    qed
  next
    case (Update_product i p)
    show ?thesis
    proof (cases p rule: params_of_cases)
      case (1 e)
      show ?thesis
        using db rows v
        by (simp add: Update_product update_product_key_error [OF h db 1] valid_defs)
    next
      case (2 n d c q)
      from sql_update_cases [OF rows, of n d c q i] show ?thesis
      proof (elim disjE exE conjE)
        fix e assume "sql_update (n, d, c, q) i db = Inl e"
        then obtain r where "update_product i p w = (r, w\<lparr>conns := conns w @ [closed_connection]\<rparr>)"
          using update_product_unchanged [OF h db 2] by blast
        then show ?thesis
          using db rows v by (simp add: Update_product valid_defs)
      next
        assume "sql_update (n, d, c, q) i db = Inr db"
        then obtain r where "update_product i p w = (r, w\<lparr>conns := conns w @ [closed_connection]\<rparr>)"
          using update_product_unchanged [OF h db 2] by blast
        then show ?thesis
          using db rows v by (simp add: Update_product valid_defs)
      next
        fix x assume ok: "bindable c" "sqlite_integer q" "sqlite_integer i" "real_column c = Some x"
        have "n \<noteq> []" "non_negative c" "0 \<le> q"
          using assms(3) by (simp_all add: Update_product valid_product_def 2)
        then have "valid_row (r\<lparr>name := n, description := d, cost := x, qty := q\<rparr>)" for r
          using real_column_non_negative [OF _ ok(4)] by (simp add: valid_row_def)
        then show ?thesis
          using db rows v
          by (auto simp add: Update_product update_product_effect [OF h db rows 2 ok] valid_defs)
      qed
    qed
  qed
qed

lemma run_rows_valid:
  "store_ok w \<Longrightarrow> all_rows_valid w \<Longrightarrow> list_all valid_call cs \<Longrightarrow> all_rows_valid (run cs w)"
proof (induction cs arbitrary: w)
  case Nil
  then show ?case by (simp add: run_def)
next
  case (Cons c cs)
  have 1: "store_ok (perform c w)" using perform_store_ok [OF Cons.prems(1), of c] by simp
  have 2: "all_rows_valid (perform c w)"
    using perform_rows_valid [OF Cons.prems(1,2)] Cons.prems(3) by simp
  from Cons.IH [OF 1 2] Cons.prems(3) show ?case by (simp add: run_def)
qed

subsection \<open>Example data\<close>


lemma two_row_store_facts:
  "\<not> commit_raises two_row_store"
  "files two_row_store db_path =
     Some \<lparr>tables = [''products'' \<mapsto> [pen_row, ink_row]], sqlite_sequence = 2\<rparr>"
  "table_of two_row_store = Some [pen_row, ink_row]"
  by (simp_all add: two_row_store_def table_of_def)

lemma params_of_pen: "params_of pen = Inr (''Pen'', ''Blue ink pen'', Py_float 20, 100)"
  by (simp add: pen_def params_of_def subscript_def)

lemma small_integers: "sqlite_integer 1" "sqlite_integer 2" "sqlite_integer 3" "sqlite_integer 5"
  "sqlite_integer 7" "sqlite_integer 21" "sqlite_integer 100" "\<not> sqlite_integer too_large"
  by (simp_all add: sqlite_integer_def too_large_def)

lemma seeded_store_first:
  "\<exists>r rest. snd (connect db_path empty_world) =
      \<lparr>files = [db_path \<mapsto> \<lparr>tables = [''products'' \<mapsto> r # rest], sqlite_sequence = 20\<rparr>],
       conns = [\<lparr>database_path = db_path, row_factory = Row, is_open = False\<rparr>],
       commit_raises = False\<rparr>
     \<and> row_id r = 1 \<and> qty r = 10 \<and> set (map row_id (r # rest)) = {1..20}"
proof -
  from seeded_store obtain rows where
    w: "snd (connect db_path empty_world) =
      \<lparr>files = [db_path \<mapsto> \<lparr>tables = [''products'' \<mapsto> rows], sqlite_sequence = 20\<rparr>],
       conns = [\<lparr>database_path = db_path, row_factory = Row, is_open = False\<rparr>],
       commit_raises = False\<rparr>"
    and f: "map fields rows = products" and i: "map row_id rows = [1..20]"
    by blast
  have "length (map fields rows) = 20" by (simp only: f length_products)
  then obtain r rest where rows: "rows = r # rest" by (cases rows) auto
  have "fields r = hd products" using f by (simp add: rows) (metis list.sel(1))
  then have q: "qty r = 10" by (simp add: products_def fields_def)
  have "row_id r = hd [1..20]" using i by (simp add: rows) (metis list.sel(1))
  then have one: "row_id r = 1" by (simp add: upto_rec1)
  have "set (map row_id (r # rest)) = set [1..20]" using i by (simp only: rows)
  then have "set (map row_id (r # rest)) = {1..20}" by simp
  then show ?thesis using w q one by (intro exI [of _ r] exI [of _ rest]) (simp add: rows)
qed

subsection \<open>The claims\<close>




text \<open>
C2. When no file exists at \<open>path\<close> (and the commit succeeds), \<open>connect path\<close> creates the
file with exactly one table, \<^verbatim>\<open>products\<close>, holding exactly 20 rows: the literal seed
list, in order, each tuple once, with the identifiers 1 to 20. No other file changes.
\<close>

theorem connect_fresh_path:
  assumes "files w path = None" and "\<not> commit_raises w"
  shows "\<exists>db rows. files (snd (connect path w)) = (files w)(path \<mapsto> db)
           \<and> dom (tables db) = {''products''} \<and> tables db ''products'' = Some rows
           \<and> length rows = 20 \<and> map fields rows = products \<and> map row_id rows = [1..20]"
proof -
  from create_tables_empty_database obtain rows where
    ct: "create_tables empty_database = Inr \<lparr>tables = [''products'' \<mapsto> rows], sqlite_sequence = 20\<rparr>"
    and f: "map fields rows = products" and i: "map row_id rows = [1..20]"
    by blast
  have "length rows = length (map fields rows)" by simp
  then have l: "length rows = 20" by (simp only: f length_products)
  let ?db = "\<lparr>tables = [''products'' \<mapsto> rows], sqlite_sequence = 20\<rparr>"
  have "files (snd (connect path w)) = (files w)(path \<mapsto> ?db)"
    by (simp add: connect_fresh_effect [OF assms ct])
  moreover have "dom (tables ?db) = {''products''}" by simp
  moreover have "tables ?db ''products'' = Some rows" by simp
  ultimately show ?thesis using f i l by (intro exI [of _ ?db] exI [of _ rows] conjI)
qed

theorem connect_fresh_path_witness:
  "files empty_world db_path = None \<and> \<not> commit_raises empty_world
   \<and> map_option length (table_of (snd (connect db_path empty_world))) = Some 20
   \<and> map_option (map fields) (table_of (snd (connect db_path empty_world))) = Some products"
proof -
  have h: "files empty_world db_path = None" "\<not> commit_raises empty_world"
    by (simp_all add: empty_world_def)
  from connect_fresh_path [OF h] show ?thesis
    by (elim exE conjE) (simp add: h table_of_def)
qed

text \<open>
C3. \<open>list_products\<close> is meant to return the rows sorted by name. On the freshly
initialized store, with its 20 seed rows, it raises \<^verbatim>\<open>TypeError\<close> instead: the connection
it opens has the default row factory, so the rows are tuples and \<^verbatim>\<open>dict(row)\<close> fails.
\<close>

theorem list_products_raises_on_seeded_store:
  "fst (list_products (snd (connect db_path empty_world))) = Inl TypeError"
proof -
  from seeded_store obtain rows where
    w: "snd (connect db_path empty_world) =
      \<lparr>files = [db_path \<mapsto> \<lparr>tables = [''products'' \<mapsto> rows], sqlite_sequence = 20\<rparr>],
       conns = [\<lparr>database_path = db_path, row_factory = Row, is_open = False\<rparr>],
       commit_raises = False\<rparr>"
    and f: "map fields rows = products"
    by blast
  have "length (map fields rows) = 20" by (simp only: f length_products)
  then have ne: "rows \<noteq> []" by auto
  show ?thesis
    using ne
    by (simp add: w list_products_effect [where db = "\<lparr>tables = [''products'' \<mapsto> rows], sqlite_sequence = 20\<rparr>"
          and rows = rows])
qed

text \<open>
C4 as stated fails: a quantity one beyond the largest SQLite integer is not stored. On the
freshly initialized store \<open>update_qty 1\<close> with it raises \<^verbatim>\<open>OverflowError\<close>, and
\<open>get_product 1\<close> afterwards still returns the quantity 10 of the first seed row.
\<close>

theorem update_qty_oversized_raises:
  "fst (update_qty 1 too_large (snd (connect db_path empty_world))) = Inl OverflowError
   \<and> map_sum id (map_option qty)
        (fst (get_product 1 (snd (update_qty 1 too_large (snd (connect db_path empty_world))))))
       = Inr (Some 10)"
proof -
  from seeded_store_first obtain r rest where
    w: "snd (connect db_path empty_world) =
      \<lparr>files = [db_path \<mapsto> \<lparr>tables = [''products'' \<mapsto> r # rest], sqlite_sequence = 20\<rparr>],
       conns = [\<lparr>database_path = db_path, row_factory = Row, is_open = False\<rparr>],
       commit_raises = False\<rparr>"
    and r: "row_id r = 1" "qty r = 10"
    by blast
  let ?db = "\<lparr>tables = [''products'' \<mapsto> r # rest], sqlite_sequence = 20\<rparr>"
  have big: "\<not> sqlite_integer too_large \<or> \<not> sqlite_integer 1" by (simp add: small_integers)
  show ?thesis
    using r
    by (simp add: w update_qty_raises [where db = ?db and rows = "r # rest", OF _ _ _ big]
        get_product_effect [where db = ?db and rows = "r # rest"] small_integers)
qed

text \<open>
C4, as the code has it. When \<open>get_product i\<close> returns a row \<open>r\<close> (the identifier is present)
and \<open>q\<close> is an SQLite integer, \<open>update_qty i q\<close> succeeds and \<open>get_product i\<close> then returns
\<open>r\<close> with its quantity replaced by \<open>q\<close> and its identifier, name, description and cost as
they were; for every other identifier \<open>get_product\<close> returns what it returned before.
\<close>

theorem update_qty_then_get:
  assumes "\<not> commit_raises w" and "fst (get_product i w) = Inr (Some r)" and "sqlite_integer q"
  shows "fst (update_qty i q w) = Inr ()
       \<and> fst (get_product i (snd (update_qty i q w))) = Inr (Some (r\<lparr>qty := q\<rparr>))
       \<and> (\<forall>j. j \<noteq> i \<longrightarrow> fst (get_product j (snd (update_qty i q w))) = fst (get_product j w))"
proof -
  from get_productD [OF assms(1,2)] obtain db rows where
    db: "files w db_path = Some db" and rows: "tables db ''products'' = Some rows"
    and i: "sqlite_integer i"
    and r: "fetchone (filter (\<lambda>r. row_id r = i) rows) = Some r"
    by auto
  have upd: "fetchone (filter (\<lambda>r. row_id r = i)
               (map (\<lambda>r. if row_id r = i then r\<lparr>qty := q\<rparr> else r) rows)) = Some (r\<lparr>qty := q\<rparr>)"
    using r by (intro fetchone_map_update) simp_all
  show ?thesis
    using assms(1) upd i
    by (simp add: update_qty_effect [OF assms(1) db rows assms(3) i]
        get_product_effect [OF assms(1) db rows]
        get_product_effect [where db = "db\<lparr>tables := (tables db)(''products'' \<mapsto>
             map (\<lambda>r. if row_id r = i then r\<lparr>qty := q\<rparr> else r) rows)\<rparr>"]
        filter_map_other)
qed

theorem update_qty_then_get_witness:
  "\<not> commit_raises two_row_store \<and> fst (get_product 1 two_row_store) = Inr (Some pen_row)
   \<and> sqlite_integer 5
   \<and> fst (update_qty 1 5 two_row_store) = Inr ()
   \<and> fst (get_product 1 (snd (update_qty 1 5 two_row_store))) = Inr (Some (pen_row\<lparr>qty := 5\<rparr>))
   \<and> fst (get_product 2 (snd (update_qty 1 5 two_row_store))) = Inr (Some ink_row)"
proof -
  have g: "fst (get_product 1 two_row_store) = Inr (Some pen_row)"
    by (simp add: get_product_effect [OF two_row_store_facts(1,2)] pen_row_def small_integers)
  have g2: "fst (get_product 2 two_row_store) = Inr (Some ink_row)"
    by (simp add: get_product_effect [OF two_row_store_facts(1,2)] pen_row_def ink_row_def
        small_integers)
  from update_qty_then_get [OF two_row_store_facts(1) g small_integers(4)]
  have "fst (update_qty 1 5 two_row_store) = Inr ()"
    and "fst (get_product 1 (snd (update_qty 1 5 two_row_store))) = Inr (Some (pen_row\<lparr>qty := 5\<rparr>))"
    and "fst (get_product 2 (snd (update_qty 1 5 two_row_store))) = fst (get_product 2 two_row_store)"
    by simp_all
  then show ?thesis
    using two_row_store_facts(1) g g2 small_integers(4) by simp
qed

text \<open>
C5 as stated fails: for an identifier one beyond the largest SQLite integer, on the freshly
initialized store, \<open>delete_product\<close> raises \<^verbatim>\<open>OverflowError\<close> instead of doing nothing,
and so does the \<open>get_product\<close> after it instead of returning \<^verbatim>\<open>None\<close>.
\<close>

theorem delete_oversized_id_raises:
  "fst (delete_product too_large (snd (connect db_path empty_world))) = Inl OverflowError
   \<and> fst (get_product too_large (snd (delete_product too_large (snd (connect db_path empty_world)))))
       = Inl OverflowError"
proof -
  from seeded_store obtain rows where
    w: "snd (connect db_path empty_world) =
      \<lparr>files = [db_path \<mapsto> \<lparr>tables = [''products'' \<mapsto> rows], sqlite_sequence = 20\<rparr>],
       conns = [\<lparr>database_path = db_path, row_factory = Row, is_open = False\<rparr>],
       commit_raises = False\<rparr>"
    by blast
  let ?db = "\<lparr>tables = [''products'' \<mapsto> rows], sqlite_sequence = 20\<rparr>"
  show ?thesis
    by (simp add: w delete_product_raises [where db = ?db and rows = rows]
        get_product_effect [where db = ?db and rows = rows] small_integers)
qed

text \<open>
C5, as the code has it. On every store and for every identifier \<open>i\<close> that is an SQLite
integer, \<open>delete_product i\<close> does not raise, and \<open>get_product i\<close> then returns
\<^verbatim>\<open>None\<close>. The table keeps exactly the rows with another identifier, and when no row has
the identifier the files are left as they were.
\<close>

theorem delete_then_get:
  assumes "\<not> commit_raises w" and "table_of w = Some rows" and "sqlite_integer i"
  shows "fst (delete_product i w) = Inr ()
       \<and> fst (get_product i (snd (delete_product i w))) = Inr None
       \<and> table_of (snd (delete_product i w)) = Some (filter (\<lambda>r. row_id r \<noteq> i) rows)
       \<and> (i \<notin> ids_in_use w \<longrightarrow> files (snd (delete_product i w)) = files w)"
proof -
  from table_ofD [OF assms(2)] obtain db where
    db: "files w db_path = Some db" and rows: "tables db ''products'' = Some rows"
    by auto
  let ?db' = "db\<lparr>tables := (tables db)(''products'' \<mapsto> filter (\<lambda>r. row_id r \<noteq> i) rows)\<rparr>"
  have gone: "fetchone (filter (\<lambda>r. row_id r = i) (filter (\<lambda>r. row_id r \<noteq> i) rows)) = None"
    by (rule fetchone_filter_None) auto
  have same: "i \<notin> ids_in_use w \<Longrightarrow> (files w)(db_path \<mapsto> ?db') = files w"
    using db rows assms(2) by (simp add: ids_in_use_def filter_other_id map_upd_same)
  show ?thesis
    using assms(1,3) gone same
    by (simp add: delete_product_effect [OF assms(1) db rows assms(3)]
        get_product_effect [where db = ?db'] table_of_def)
qed

theorem delete_then_get_witness:
  "\<not> commit_raises two_row_store \<and> table_of two_row_store = Some [pen_row, ink_row]
   \<and> sqlite_integer 1
   \<and> fst (delete_product 1 two_row_store) = Inr ()
   \<and> fst (get_product 1 (snd (delete_product 1 two_row_store))) = Inr None
   \<and> table_of (snd (delete_product 1 two_row_store)) = Some [ink_row]"
  using delete_then_get [OF two_row_store_facts(1,3) small_integers(1)]
    two_row_store_facts(1,3) small_integers(1)
  by (simp add: pen_row_def ink_row_def)




text \<open>
C7. A second \<open>connect\<close> on the same path changes no file: it inserts nothing, and the
table still holds the seed list exactly once.
\<close>

theorem connect_twice:
  assumes "files w path = None" and "\<not> commit_raises w"
  shows "files (snd (connect path (snd (connect path w)))) = files (snd (connect path w))
       \<and> (\<exists>db rows. files (snd (connect path (snd (connect path w)))) path = Some db
             \<and> tables db ''products'' = Some rows \<and> map fields rows = products)"
proof -
  from create_tables_empty_database obtain rows where
    ct: "create_tables empty_database = Inr \<lparr>tables = [''products'' \<mapsto> rows], sqlite_sequence = 20\<rparr>"
    and f: "map fields rows = products"
    by blast
  let ?w1 = "snd (connect path w)"
  have w1: "\<not> commit_raises ?w1"
    "files ?w1 path = Some \<lparr>tables = [''products'' \<mapsto> rows], sqlite_sequence = 20\<rparr>"
    using assms(2) by (simp_all add: connect_fresh_effect [OF assms ct])
  show ?thesis
    using f w1(2) by (simp add: connect_existing_effect [OF w1])
qed

theorem connect_twice_witness:
  "files empty_world db_path = None \<and> \<not> commit_raises empty_world
   \<and> files (snd (connect db_path (snd (connect db_path empty_world))))
       = files (snd (connect db_path empty_world))
   \<and> map_option (map fields) (table_of (snd (connect db_path (snd (connect db_path empty_world)))))
       = Some products"
proof -
  have h: "files empty_world db_path = None" "\<not> commit_raises empty_world"
    by (simp_all add: empty_world_def)
  from connect_twice [OF h] obtain db rows where
    "files (snd (connect db_path (snd (connect db_path empty_world))))
       = files (snd (connect db_path empty_world))"
    and "files (snd (connect db_path (snd (connect db_path empty_world)))) db_path = Some db"
    and "tables db ''products'' = Some rows" and "map fields rows = products"
    by blast
  then show ?thesis
    using h by (simp add: table_of_def)
qed

text \<open>
C8 as stated fails: one \<open>add_product\<close> with an empty name and negative numbers, on the
freshly initialized store, is accepted and leaves a row that breaks all three constraints.
\<close>

theorem unchecked_add_breaks_validity:
  "\<not> all_rows_valid (run [Add_product unvalidated] (snd (connect db_path empty_world)))"
proof -
  from seeded_store obtain rows where
    w: "snd (connect db_path empty_world) =
      \<lparr>files = [db_path \<mapsto> \<lparr>tables = [''products'' \<mapsto> rows], sqlite_sequence = 20\<rparr>],
       conns = [\<lparr>database_path = db_path, row_factory = Row, is_open = False\<rparr>],
       commit_raises = False\<rparr>"
    and i: "map row_id rows = [1..20]"
    by blast
  let ?db = "\<lparr>tables = [''products'' \<mapsto> rows], sqlite_sequence = 20\<rparr>"
  have p: "params_of unvalidated = Inr ([], [], Py_float (- 1), - 1)"
    by (simp add: unvalidated_def params_of_def subscript_def)
  have "\<forall>x\<in>set (map row_id rows). x \<le> 20" by (simp only: i) simp
  then have "\<forall>r\<in>set rows. row_id r \<le> sqlite_sequence ?db" by simp
  then have nx: "next_id ?db rows = 21" by (simp add: next_id_consistent)
  have ok: "bindable (Py_float (- 1))" "sqlite_integer (- 1)" "sqlite_integer (next_id ?db rows)"
    "real_column (Py_float (- 1)) = Some (- 1)"
    by (simp_all add: nx bindable_def sqlite_integer_def real_column_def)
  show ?thesis
    by (simp add: run_def w all_rows_valid_def table_of_def valid_row_def
        add_product_effect [where db = ?db and rows = rows, OF _ _ _ p ok])
qed

text \<open>
C8, as the code has it. The module validates nothing, so the constraints on rows hold only
as far as the callers keep them: in every state reached from a freshly initialized store by
calls whose dictionaries and quantities meet the constraints, every row has a non-empty name,
a non-negative cost and a non-negative quantity.
\<close>

theorem valid_inputs_keep_rows_valid:
  assumes "files w0 db_path = None" and "\<not> commit_raises w0" and "list_all valid_call cs"
  shows "all_rows_valid (run cs (snd (connect db_path w0)))"
  using run_rows_valid [OF connect_store_ok [OF assms(1,2)] connect_rows_valid [OF assms(1,2)] assms(3)] .

theorem valid_inputs_keep_rows_valid_witness:
  "files empty_world db_path = None \<and> \<not> commit_raises empty_world
   \<and> list_all valid_call [Add_product pen, Update_qty 1 0, Delete_product 2, Update_product 3 pen]
   \<and> all_rows_valid (run [Add_product pen, Update_qty 1 0, Delete_product 2, Update_product 3 pen]
        (snd (connect db_path empty_world)))"
proof -
  have h: "files empty_world db_path = None" "\<not> commit_raises empty_world"
    by (simp_all add: empty_world_def)
  have v: "list_all valid_call [Add_product pen, Update_qty 1 0, Delete_product 2, Update_product 3 pen]"
    by (simp add: valid_product_def params_of_pen non_negative_def)
  from valid_inputs_keep_rows_valid [OF h v] show ?thesis
    using h v by simp
qed

text \<open>
C9. \<open>connect\<close> is meant to return an open connection. It returns the connection after its
\<^verbatim>\<open>with\<close> block has ended, that is after \<open>get_connection\<close> has committed and closed it: on
a machine without files the call returns handle 0, and the connection at handle 0 is closed.
\<close>

theorem connect_returns_closed_connection:
  "fst (connect db_path empty_world) = Inr 0
   \<and> \<not> is_open (conns (snd (connect db_path empty_world)) ! 0)"
proof -
  from seeded_store obtain rows where
    "snd (connect db_path empty_world) =
      \<lparr>files = [db_path \<mapsto> \<lparr>tables = [''products'' \<mapsto> rows], sqlite_sequence = 20\<rparr>],
       conns = [\<lparr>database_path = db_path, row_factory = Row, is_open = False\<rparr>],
       commit_raises = False\<rparr>"
    and "fst (connect db_path empty_world) = Inr 0"
    by blast
  then show ?thesis by simp
qed

text \<open>
C10. The \<^verbatim>\<open>finally\<close> clause of \<open>get_connection\<close> is meant to release the connection on
every exit. It calls \<^verbatim>\<open>commit\<close> first and \<^verbatim>\<open>close\<close> after it, so when the commit raises
the close is skipped: on the seeded store with a failing commit, \<open>update_qty 1 5\<close> raises
the commit's error and the connection it opened stays open.
\<close>

theorem failed_commit_leaves_connection_open:
  "fst (update_qty 1 5 ((snd (connect db_path empty_world))\<lparr>commit_raises := True\<rparr>)) = Inl commit_failed
   \<and> is_open (last (conns (snd (update_qty 1 5
          ((snd (connect db_path empty_world))\<lparr>commit_raises := True\<rparr>)))))"
proof -
  let ?w = "(snd (connect db_path empty_world))\<lparr>commit_raises := True\<rparr>"
  have "commit_raises ?w" by simp
  then show ?thesis
    by (simp add: update_qty_def get_connection_commit_raises split: sum.splits)
qed

end
